theory Spec2Isabelle
  imports Complex_Main "HOL-Library.Log_Nat"
begin

section \<open>Bill extraction service: data model\<close>

text \<open>
  The raw extraction payload is whatever \<^verbatim>\<open>json.loads\<close> returned for the model's answer:
  an untyped JSON tree. Python's \<^verbatim>\<open>None\<close> is \<open>JNull\<close>; a \<^verbatim>\<open>dict\<close> is an association list
  (looked up with \<open>map_of\<close>, iterated in insertion order); an \<^verbatim>\<open>int\<close> is unbounded.

  A Python \<^verbatim>\<open>float\<close> is an IEEE 754 double: a finite value, given by the rational number
  it denotes exactly, or one of inf, -inf and nan. The two zeros of IEEE 754 are one value
  here (\<^verbatim>\<open>-0.0 == 0.0\<close> in Python). A \<open>JFloat\<close> of a payload holds a double.
\<close>

datatype pyfloat = Finite rat | PosInf | NegInf | NaN

datatype json =
    JNull
  | JBool bool
  | JInt int
  | JFloat pyfloat
  | JStr string
  | JArr "json list"
  | JObj "(string \<times> json) list"

datatype py_error =
  AttributeError | TypeError | ValueError | OverflowError | ZeroDivisionError | ValidationError

text \<open>app/models.py: \<^verbatim>\<open>BillItem\<close>, \<^verbatim>\<open>PageWiseLineItems\<close>, \<^verbatim>\<open>ExtractedData\<close>.\<close>

record bill_item =
  item_name :: string
  item_amount :: pyfloat
  item_rate :: "pyfloat option"
  item_quantity :: "pyfloat option"

record page_wise_line_items =
  page_no :: string
  bill_items :: "bill_item list"
  sub_total :: "pyfloat option"

record extracted_data =
  pagewise_line_items :: "page_wise_line_items list"
  total_item_count :: int
  reconciled_amount :: pyfloat
  actual_bill_total :: "pyfloat option"
  accuracy_percentage :: "pyfloat option"

text \<open>
  Two built-ins of Python whose results depend on text formats that are no part of the
  repository are parameters of the model: \<^verbatim>\<open>float(s)\<close> on a string (\<open>None\<close> when it raises
  \<^verbatim>\<open>ValueError\<close>) and \<^verbatim>\<open>str(v)\<close>.
\<close>

record builtins =
  str_to_float :: "string \<Rightarrow> pyfloat option"
  to_str :: "json \<Rightarrow> string"

section \<open>Float arithmetic\<close>

text \<open>Rounding to the nearest integer, ties to the even one.\<close>

definition round_half_even :: "rat \<Rightarrow> int" where
  "round_half_even x =
     (let f = \<lfloor>x\<rfloor>; d = x - of_int f in
      if d < 1 / 2 then f else if 1 / 2 < d then f + 1 else if even f then f else f + 1)"

definition pow2 :: "int \<Rightarrow> rat" where
  "pow2 k = (if 0 \<le> k then of_int (2 ^ nat k) else 1 / of_int (2 ^ nat (- k)))"

text \<open>The exponent \<open>e\<close> of a positive number \<open>x\<close>: \<open>2 ^ e \<le> x < 2 ^ (e + 1)\<close>.\<close>

definition floor_log2 :: "rat \<Rightarrow> int" where
  "floor_log2 x =
     (let (a, b) = quotient_of x;
          e = bitlen a - bitlen b
      in if pow2 e \<le> x then e else e - 1)"

text \<open>
  The double nearest to a number, ties to the even significand: 53 significant bits,
  exponents from -1022 (below, the spacing of the subnormal numbers) to 1023 (above,
  an infinity). Every arithmetic operation of IEEE 754 returns the exact result rounded
  this way.
\<close>

definition to_double :: "rat \<Rightarrow> pyfloat" where
  "to_double x =
     (if x = 0 then Finite 0
      else (let e = max (floor_log2 \<bar>x\<bar>) (- 1022);
                ulp = pow2 (e - 52);
                m = round_half_even (\<bar>x\<bar> / ulp);
                y = of_int m * ulp
            in if 1024 \<le> e \<or> e = 1023 \<and> 9007199254740992 \<le> m
               then (if 0 < x then PosInf else NegInf)
               else Finite (if 0 < x then y else - y)))"

fun f_neg :: "pyfloat \<Rightarrow> pyfloat" where
  "f_neg (Finite a) = Finite (- a)"
| "f_neg PosInf = NegInf"
| "f_neg NegInf = PosInf"
| "f_neg NaN = NaN"

text \<open>\<^verbatim>\<open>abs(x)\<close>.\<close>

fun f_abs :: "pyfloat \<Rightarrow> pyfloat" where
  "f_abs (Finite a) = Finite \<bar>a\<bar>"
| "f_abs PosInf = PosInf"
| "f_abs NegInf = PosInf"
| "f_abs NaN = NaN"

fun f_negative :: "pyfloat \<Rightarrow> bool" where
  "f_negative (Finite a) = (a < 0)"
| "f_negative NegInf = True"
| "f_negative x = False"

text \<open>\<^verbatim>\<open>x + y\<close>, \<^verbatim>\<open>x - y\<close> and \<^verbatim>\<open>x * y\<close>.\<close>

fun f_add :: "pyfloat \<Rightarrow> pyfloat \<Rightarrow> pyfloat" where
  "f_add (Finite a) (Finite b) = to_double (a + b)"
| "f_add NaN y = NaN"
| "f_add x NaN = NaN"
| "f_add PosInf NegInf = NaN"
| "f_add NegInf PosInf = NaN"
| "f_add PosInf y = PosInf"
| "f_add NegInf y = NegInf"
| "f_add x PosInf = PosInf"
| "f_add x NegInf = NegInf"

definition f_sub :: "pyfloat \<Rightarrow> pyfloat \<Rightarrow> pyfloat" where
  "f_sub x y = f_add x (f_neg y)"

fun f_mul :: "pyfloat \<Rightarrow> pyfloat \<Rightarrow> pyfloat" where
  "f_mul (Finite a) (Finite b) = to_double (a * b)"
| "f_mul NaN y = NaN"
| "f_mul x NaN = NaN"
| "f_mul x y =
     (if x = Finite 0 \<or> y = Finite 0 then NaN
      else if f_negative x = f_negative y then PosInf else NegInf)"

text \<open>
  \<^verbatim>\<open>x / y\<close> raises \<^verbatim>\<open>ZeroDivisionError\<close> for a divisor 0; \<open>f_div\<close> is the quotient for every
  other divisor.
\<close>

fun f_div :: "pyfloat \<Rightarrow> pyfloat \<Rightarrow> pyfloat" where
  "f_div (Finite a) (Finite b) = to_double (a / b)"
| "f_div NaN y = NaN"
| "f_div x NaN = NaN"
| "f_div (Finite a) y = Finite 0"
| "f_div x (Finite b) = (if f_negative x = (b < 0) then PosInf else NegInf)"
| "f_div x y = NaN"

definition py_div :: "pyfloat \<Rightarrow> pyfloat \<Rightarrow> py_error + pyfloat" where
  "py_div x y = (if y = Finite 0 then Inl ZeroDivisionError else Inr (f_div x y))"

text \<open>
  \<^verbatim>\<open>round(x, 2)\<close>: the exact value of a finite \<open>x\<close> is rounded to the nearest multiple of
  1/100, ties to the even one, and the double nearest to that is returned; inf and nan
  are returned as they are.
\<close>

fun py_round2 :: "pyfloat \<Rightarrow> pyfloat" where
  "py_round2 (Finite a) = to_double (of_int (round_half_even (a * 100)) / 100)"
| "py_round2 x = x"

text \<open>\<^verbatim>\<open>bool(x)\<close> and \<^verbatim>\<open>x > 0\<close>.\<close>

fun f_truthy :: "pyfloat \<Rightarrow> bool" where
  "f_truthy (Finite a) = (a \<noteq> 0)"
| "f_truthy x = True"

fun f_gt_zero :: "pyfloat \<Rightarrow> bool" where
  "f_gt_zero (Finite a) = (0 < a)"
| "f_gt_zero PosInf = True"
| "f_gt_zero x = False"

section \<open>Python operations on the raw payload\<close>

text \<open>\<^verbatim>\<open>d.get(key, default)\<close>: only a dict has the method.\<close>

fun py_get :: "json \<Rightarrow> string \<Rightarrow> json \<Rightarrow> py_error + json" where
  "py_get (JObj kvs) key dflt = Inr (case map_of kvs key of None \<Rightarrow> dflt | Some v \<Rightarrow> v)"
| "py_get _ key dflt = Inl AttributeError"

text \<open>\<^verbatim>\<open>for x in v\<close>: a list gives its elements, a dict its keys, a string its characters;
  nothing else is iterable.\<close>

fun py_iter :: "json \<Rightarrow> py_error + json list" where
  "py_iter (JArr xs) = Inr xs"
| "py_iter (JObj kvs) = Inr (map (\<lambda>kv. JStr (fst kv)) kvs)"
| "py_iter (JStr s) = Inr (map (\<lambda>c. JStr [c]) s)"
| "py_iter _ = Inl TypeError"

text \<open>
  \<^verbatim>\<open>float(v)\<close>. An integer becomes the nearest double, and \<^verbatim>\<open>OverflowError\<close> is raised when
  that is no finite double.
\<close>

fun py_float :: "builtins \<Rightarrow> json \<Rightarrow> py_error + pyfloat" where
  "py_float B JNull = Inl TypeError"
| "py_float B (JBool b) = Inr (if b then Finite 1 else Finite 0)"
| "py_float B (JInt i) =
     (case to_double (of_int i) of Finite r \<Rightarrow> Inr (Finite r) | _ \<Rightarrow> Inl OverflowError)"
| "py_float B (JFloat x) = Inr x"
| "py_float B (JStr s) = (case str_to_float B s of None \<Rightarrow> Inl ValueError | Some x \<Rightarrow> Inr x)"
| "py_float B (JArr xs) = Inl TypeError"
| "py_float B (JObj kvs) = Inl TypeError"

text \<open>Truthiness (\<^verbatim>\<open>if not v\<close>).\<close>

fun py_truthy :: "json \<Rightarrow> bool" where
  "py_truthy JNull = False"
| "py_truthy (JBool b) = b"
| "py_truthy (JInt i) = (i \<noteq> 0)"
| "py_truthy (JFloat x) = f_truthy x"
| "py_truthy (JStr s) = (s \<noteq> [])"
| "py_truthy (JArr xs) = (xs \<noteq> [])"
| "py_truthy (JObj kvs) = (kvs \<noteq> [])"

section \<open>\<^verbatim>\<open>BillExtractionService.reconcile_amounts\<close>\<close>

text \<open>\<^verbatim>\<open>float(d[key]) if d.get(key) is not None else None\<close> (lines 309, 310, 322).\<close>

definition float_or_none :: "builtins \<Rightarrow> json \<Rightarrow> string \<Rightarrow> py_error + pyfloat option" where
  "float_or_none B d key =
     (case py_get d key JNull of
        Inl e \<Rightarrow> Inl e
      | Inr v \<Rightarrow>
          if v \<noteq> JNull
          then (case py_float B v of Inl e \<Rightarrow> Inl e | Inr r \<Rightarrow> Inr (Some r))
          else Inr None)"

text \<open>
  Lines 306-311, the construction of one \<^verbatim>\<open>BillItem\<close>. The keyword arguments are evaluated in
  order; then pydantic validates the fields, and of the JSON values only a string is a
  valid \<^verbatim>\<open>str\<close> field.
\<close>

definition make_bill_item :: "builtins \<Rightarrow> json \<Rightarrow> py_error + bill_item" where
  "make_bill_item B item_data =
     (case py_get item_data ''item_name'' (JStr ''Unknown'') of
        Inl e \<Rightarrow> Inl e
      | Inr name \<Rightarrow>
     (case py_get item_data ''item_amount'' (JInt 0) of
        Inl e \<Rightarrow> Inl e
      | Inr amount_raw \<Rightarrow>
     (case py_float B amount_raw of
        Inl e \<Rightarrow> Inl e
      | Inr amount \<Rightarrow>
     (case float_or_none B item_data ''item_rate'' of
        Inl e \<Rightarrow> Inl e
      | Inr rate \<Rightarrow>
     (case float_or_none B item_data ''item_quantity'' of
        Inl e \<Rightarrow> Inl e
      | Inr quantity \<Rightarrow>
     (case name of
        JStr s \<Rightarrow>
          Inr \<lparr>item_name = s, item_amount = amount, item_rate = rate,
               item_quantity = quantity\<rparr>
      | _ \<Rightarrow> Inl ValidationError))))))"

text \<open>
  The inner loop (lines 304-316) over the items of one page. The state is the page's
  \<^verbatim>\<open>bill_items\<close> (here \<open>items\<close>) and the two running totals \<^verbatim>\<open>reconciled_amount\<close> (here
  \<open>reconciled\<close>) and \<^verbatim>\<open>total_items\<close>.
\<close>

fun items_loop ::
  "builtins \<Rightarrow> json list \<Rightarrow> bill_item list \<times> pyfloat \<times> int
     \<Rightarrow> py_error + (bill_item list \<times> pyfloat \<times> int)" where
  "items_loop B [] st = Inr st"
| "items_loop B (item_data # rest) (items, reconciled, total_items) =
     (case make_bill_item B item_data of
        Inl e \<Rightarrow> Inl e
      | Inr item \<Rightarrow>
          items_loop B rest
            (items @ [item], f_add reconciled (item_amount item), total_items + 1))"

text \<open>
  The outer loop (lines 301-324) over the pages. The state is \<^verbatim>\<open>pagewise_items\<close> and the
  two running totals.
\<close>

fun pages_loop ::
  "builtins \<Rightarrow> json list \<Rightarrow> page_wise_line_items list \<times> pyfloat \<times> int
     \<Rightarrow> py_error + (page_wise_line_items list \<times> pyfloat \<times> int)" where
  "pages_loop B [] st = Inr st"
| "pages_loop B (page_data # rest) (pagewise_items, reconciled, total_items) =
     (case py_get page_data ''bill_items'' (JArr []) of
        Inl e \<Rightarrow> Inl e
      | Inr items_raw \<Rightarrow>
     (case py_iter items_raw of
        Inl e \<Rightarrow> Inl e
      | Inr item_list \<Rightarrow>
     (case items_loop B item_list ([], reconciled, total_items) of
        Inl e \<Rightarrow> Inl e
      | Inr (items, reconciled', total_items') \<Rightarrow>
     (case py_get page_data ''page_no'' (JStr ''1'') of
        Inl e \<Rightarrow> Inl e
      | Inr page_no_raw \<Rightarrow>
     (case float_or_none B page_data ''sub_total'' of
        Inl e \<Rightarrow> Inl e
      | Inr sub \<Rightarrow>
          pages_loop B rest
            (pagewise_items @
               [\<lparr>page_no = to_str B page_no_raw, bill_items = items, sub_total = sub\<rparr>],
             reconciled', total_items'))))))"

text \<open>
  Lines 297-342. The running sum starts at \<^verbatim>\<open>0.0\<close>. After the loops: the stated total
  (lines 327-328), the accuracy from the unrounded running sum (lines 331-334, where the
  integers 1 and 100 become floats), and the result (lines 336-342).
\<close>

definition reconcile_amounts :: "builtins \<Rightarrow> json \<Rightarrow> py_error + extracted_data" where
  "reconcile_amounts B extracted =
     (case py_get extracted ''pagewise_line_items'' (JArr []) of
        Inl e \<Rightarrow> Inl e
      | Inr pages_raw \<Rightarrow>
     (case py_iter pages_raw of
        Inl e \<Rightarrow> Inl e
      | Inr page_list \<Rightarrow>
     (case pages_loop B page_list ([], Finite 0, 0) of
        Inl e \<Rightarrow> Inl e
      | Inr (pagewise_items, reconciled, total_items) \<Rightarrow>
     (case float_or_none B extracted ''actual_bill_total'' of
        Inl e \<Rightarrow> Inl e
      | Inr actual_total \<Rightarrow>
     (case (case actual_total of
              None \<Rightarrow> Inr None
            | Some t \<Rightarrow>
                if f_truthy t \<and> f_gt_zero t
                then (case py_div (f_abs (f_sub reconciled t)) t of
                        Inl e \<Rightarrow> Inl e
                      | Inr q \<Rightarrow>
                          Inr (Some (py_round2 (f_mul (Finite 100) (f_sub (Finite 1) q)))))
                else Inr None) of
        Inl e \<Rightarrow> Inl e
      | Inr accuracy \<Rightarrow>
          Inr \<lparr>pagewise_line_items = pagewise_items,
               total_item_count = total_items,
               reconciled_amount = py_round2 reconciled,
               actual_bill_total =
                 (case actual_total of
                    None \<Rightarrow> None
                  | Some t \<Rightarrow> if f_truthy t then Some (py_round2 t) else None),
               accuracy_percentage = accuracy\<rparr>)))))"

section \<open>The extraction strategies and \<^verbatim>\<open>extract_bill_data\<close>\<close>

text \<open>
  What the service talks to is a parameter of the model: the prompt text of
  \<^verbatim>\<open>create_extraction_prompt\<close> (a constant of no interest here), the PNG encoding of
  \<^verbatim>\<open>image_to_base64\<close> (\<open>None\<close> when it raises), the language model (\<open>None\<close> when the call
  raises or gives no text) and \<^verbatim>\<open>json.loads(content.strip())\<close> (\<open>None\<close> when
  it raises). An image is an opaque value. A request is the client method with the
  arguments that vary: the prompt and the image for Gemini; the model, the prompt and the
  encoded image for a chat completion (\<^verbatim>\<open>max_tokens\<close> and \<^verbatim>\<open>temperature\<close> are constants).
\<close>

type_synonym image = string

datatype llm_request =
    GeminiGenerate string "image option"
  | ChatCompletion string string "string option"

record world =
  py :: builtins
  extraction_prompt :: string
  png_base64 :: "image \<Rightarrow> string option"
  llm :: "llm_request \<Rightarrow> string option"
  json_loads :: "string \<Rightarrow> json option"

text \<open>
  The state of \<^verbatim>\<open>BillExtractionService\<close>: the provider name and whether each client
  object was created.
\<close>

record service =
  provider :: string
  openai_client :: bool
  gemini_model :: bool

text \<open>app/config.py, lines 33-34.\<close>

definition GPT_MODEL :: string where
  "GPT_MODEL = ''gpt-4o''"

definition GPT_FALLBACK_MODEL :: string where
  "GPT_FALLBACK_MODEL = ''gpt-4o-mini''"

text \<open>
  The first occurrence of a separator: the text before it and the text after it.
  \<^verbatim>\<open>s.split(sep)[0]\<close> is the text before the first occurrence (all of \<open>s\<close> without one),
  \<^verbatim>\<open>s.split(sep)[1]\<close> the text between the first and the second.
\<close>

fun split_first :: "string \<Rightarrow> string \<Rightarrow> (string \<times> string) option" where
  "split_first sep [] = None"
| "split_first sep (c # cs) =
     (if take (length sep) (c # cs) = sep then Some ([], drop (length sep) (c # cs))
      else (case split_first sep cs of
              None \<Rightarrow> None
            | Some (before, after) \<Rightarrow> Some (c # before, after)))"

definition split_0 :: "string \<Rightarrow> string \<Rightarrow> string" where
  "split_0 sep s = (case split_first sep s of None \<Rightarrow> s | Some (before, after) \<Rightarrow> before)"

text \<open>Lines 148-151, 219-222 and 275-278: the markdown fence around the answer.\<close>

definition strip_fences :: "string \<Rightarrow> string" where
  "strip_fences content =
     (case split_first ''```json'' content of
        Some (before, after) \<Rightarrow> split_0 ''```'' (split_0 ''```json'' after)
      | None \<Rightarrow>
          (case split_first ''```'' content of
             Some (before, after) \<Rightarrow> split_0 ''```'' (split_0 ''```'' after)
           | None \<Rightarrow> content))"

text \<open>
  One round trip to the model and the parsing of its answer. Every exception is caught and
  the strategy returns \<^verbatim>\<open>None\<close>. The result is paired with the requests that were sent.
\<close>

definition ask :: "world \<Rightarrow> llm_request \<Rightarrow> llm_request list \<times> json" where
  "ask W req =
     (case llm W req of
        None \<Rightarrow> ([req], JNull)
      | Some content \<Rightarrow>
          (case json_loads W (strip_fences content) of
             None \<Rightarrow> ([req], JNull)
           | Some data \<Rightarrow> ([req], data)))"

definition ocr_reference :: string where
  "ocr_reference = [CHR 0x0A, CHR 0x0A] @ ''OCR Text (for reference):'' @ [CHR 0x0A]"

definition bill_text :: string where
  "bill_text = [CHR 0x0A, CHR 0x0A] @ ''Bill Text:'' @ [CHR 0x0A]"

definition extract_with_gemini ::
  "world \<Rightarrow> service \<Rightarrow> image \<Rightarrow> string \<Rightarrow> llm_request list \<times> json" where
  "extract_with_gemini W svc img ocr_text =
     (if \<not> gemini_model svc then ([], JNull)
      else ask W (GeminiGenerate (extraction_prompt W @ ocr_reference @ take 2000 ocr_text)
                    (Some img)))"

definition extract_with_vision ::
  "world \<Rightarrow> service \<Rightarrow> image \<Rightarrow> string \<Rightarrow> llm_request list \<times> json" where
  "extract_with_vision W svc img ocr_text =
     (if \<not> openai_client svc then ([], JNull)
      else (case png_base64 W img of
              None \<Rightarrow> ([], JNull)
            | Some img_base64 \<Rightarrow>
                ask W (ChatCompletion GPT_MODEL
                         (extraction_prompt W @ ocr_reference @ take 2000 ocr_text)
                         (Some img_base64))))"

definition fallback_extraction :: "world \<Rightarrow> service \<Rightarrow> string \<Rightarrow> llm_request list \<times> json" where
  "fallback_extraction W svc ocr_text =
     (if \<not> openai_client svc \<and> \<not> gemini_model svc then ([], JNull)
      else if gemini_model svc
      then ask W (GeminiGenerate (extraction_prompt W @ bill_text @ ocr_text) None)
      else if openai_client svc
      then ask W (ChatCompletion GPT_FALLBACK_MODEL
                    (extraction_prompt W @ bill_text @ ocr_text) None)
      else ([], JNull))"

text \<open>Lines 355-366 of \<^verbatim>\<open>extract_bill_data\<close>: the vision strategy, then the fallback.\<close>

definition run_strategies ::
  "world \<Rightarrow> service \<Rightarrow> image \<Rightarrow> string \<Rightarrow> llm_request list \<times> json" where
  "run_strategies W svc img ocr_text =
     (let (calls, extracted) =
            (if provider svc = ''gemini'' \<and> gemini_model svc
             then extract_with_gemini W svc img ocr_text
             else if provider svc = ''openai'' \<and> openai_client svc
             then extract_with_vision W svc img ocr_text
             else ([], JNull))
      in if \<not> py_truthy extracted
         then (let (calls', extracted') = fallback_extraction W svc ocr_text
               in (calls @ calls', extracted'))
         else (calls, extracted))"

text \<open>Lines 368-378: no payload, or an exception of the reconciliation, gives \<^verbatim>\<open>None\<close>.\<close>

definition extract_bill_data ::
  "world \<Rightarrow> service \<Rightarrow> image \<Rightarrow> string \<Rightarrow> llm_request list \<times> extracted_data option" where
  "extract_bill_data W svc img ocr_text =
     (let (calls, extracted) = run_strategies W svc img ocr_text
      in if \<not> py_truthy extracted then (calls, None)
         else (case reconcile_amounts (py W) extracted of
                 Inl e \<Rightarrow> (calls, None)
               | Inr reconciled_data \<Rightarrow> (calls, Some reconciled_data)))"

section \<open>The endpoint \<^verbatim>\<open>/extract-bill-data\<close> (app/main.py)\<close>

record ocr_result =
  ocr_text_of :: string
  ocr_image_of :: image

datatype 'a outcome = Raises string | Returns 'a

record bill_extraction_response =
  is_success :: bool
  data :: "extracted_data option"
  error :: "string option"

datatype http_result =
    HTTPException nat string
  | Response bill_extraction_response

text \<open>
  Lines 83-129. \<^verbatim>\<open>process_document\<close> is the acquisition collaborator, a parameter. An
  \<^verbatim>\<open>HTTPException\<close> raised inside the \<^verbatim>\<open>try\<close> is raised again (lines 122-123); any other
  exception becomes a response with \<^verbatim>\<open>is_success=False\<close> (lines 124-129).
\<close>

definition extract_bill_data_endpoint ::
  "world \<Rightarrow> service \<Rightarrow> (string \<Rightarrow> ocr_result option outcome) \<Rightarrow> string \<Rightarrow> http_result" where
  "extract_bill_data_endpoint W svc process_document document =
     (case process_document document of
        Raises msg \<Rightarrow> Response \<lparr>is_success = False, data = None, error = Some msg\<rparr>
      | Returns None \<Rightarrow>
          HTTPException 400 ''Failed to process document. Please check the document URL.''
      | Returns (Some ocr) \<Rightarrow>
          (case snd (extract_bill_data W svc (ocr_image_of ocr) (ocr_text_of ocr)) of
             None \<Rightarrow>
               HTTPException 500
                 ''Failed to extract bill data. Please check your OpenAI API key.''
           | Some extracted \<Rightarrow>
               Response \<lparr>is_success = True, data = Some extracted, error = None\<rparr>))"

section \<open>Reading the payload and the result\<close>

text \<open>
  The page entries of a payload and the item entries of a page, as the loops of
  \<^verbatim>\<open>reconcile_amounts\<close> enumerate them (none when the field cannot be enumerated).
\<close>

definition raw_pages :: "json \<Rightarrow> json list" where
  "raw_pages extracted =
     (case py_get extracted ''pagewise_line_items'' (JArr []) of
        Inl e \<Rightarrow> []
      | Inr v \<Rightarrow> (case py_iter v of Inl e \<Rightarrow> [] | Inr xs \<Rightarrow> xs))"

definition raw_items :: "json \<Rightarrow> json list" where
  "raw_items page_data =
     (case py_get page_data ''bill_items'' (JArr []) of
        Inl e \<Rightarrow> []
      | Inr v \<Rightarrow> (case py_iter v of Inl e \<Rightarrow> [] | Inr xs \<Rightarrow> xs))"

definition payload_items :: "json \<Rightarrow> json list" where
  "payload_items extracted = concat (map raw_items (raw_pages extracted))"

text \<open>The \<^verbatim>\<open>item_amount\<close> of an item entry as a float: 0.0 without the key.\<close>

definition raw_amount :: "builtins \<Rightarrow> json \<Rightarrow> pyfloat" where
  "raw_amount B item_data =
     (case py_get item_data ''item_amount'' (JInt 0) of
        Inl e \<Rightarrow> Finite 0
      | Inr v \<Rightarrow> (case py_float B v of Inl e \<Rightarrow> Finite 0 | Inr x \<Rightarrow> x))"

definition payload_amounts :: "builtins \<Rightarrow> json \<Rightarrow> pyfloat list" where
  "payload_amounts B extracted = map (raw_amount B) (payload_items extracted)"

text \<open>
  The sum of a list of floats as Python accumulates it: from \<^verbatim>\<open>0.0\<close>, one addition for each
  element, in the order of the list.
\<close>

definition float_sum :: "pyfloat list \<Rightarrow> pyfloat" where
  "float_sum xs = foldl f_add (Finite 0) xs"

text \<open>\<^verbatim>\<open>round(100 * (1 - abs(s - t) / t), 2)\<close> for a divisor other than 0.\<close>

definition accuracy_formula :: "pyfloat \<Rightarrow> pyfloat \<Rightarrow> pyfloat" where
  "accuracy_formula s t =
     py_round2 (f_mul (Finite 100) (f_sub (Finite 1) (f_div (f_abs (f_sub s t)) t)))"

text \<open>The stated bill total of a payload as a number, when there is one.\<close>

definition stated_total :: "builtins \<Rightarrow> json \<Rightarrow> pyfloat option" where
  "stated_total B extracted =
     (case float_or_none B extracted ''actual_bill_total'' of Inl e \<Rightarrow> None | Inr t \<Rightarrow> t)"

definition all_items :: "extracted_data \<Rightarrow> bill_item list" where
  "all_items d = concat (map bill_items (pagewise_line_items d))"

text \<open>
  A field is absent when the key is missing or maps to \<^verbatim>\<open>null\<close>; it is a numeric zero when
  it is the integer or the float 0.
\<close>

definition field_absent :: "json \<Rightarrow> string \<Rightarrow> bool" where
  "field_absent d key = (py_get d key JNull = Inr JNull)"

definition field_zero :: "json \<Rightarrow> string \<Rightarrow> bool" where
  "field_zero d key =
     (py_get d key JNull = Inr (JInt 0) \<or> py_get d key JNull = Inr (JFloat (Finite 0)))"

text \<open>An optional numeric field that is present and that \<^verbatim>\<open>float\<close> rejects.\<close>

definition uncoercible :: "builtins \<Rightarrow> json \<Rightarrow> string \<Rightarrow> bool" where
  "uncoercible B d key =
     (case py_get d key JNull of
        Inl e \<Rightarrow> False
      | Inr v \<Rightarrow> v \<noteq> JNull \<and> isl (py_float B v))"

definition amount_uncoercible :: "builtins \<Rightarrow> json \<Rightarrow> bool" where
  "amount_uncoercible B item_data =
     (case py_get item_data ''item_amount'' (JInt 0) of
        Inl e \<Rightarrow> False
      | Inr v \<Rightarrow> isl (py_float B v))"

definition item_uncoercible :: "builtins \<Rightarrow> json \<Rightarrow> bool" where
  "item_uncoercible B item_data =
     (amount_uncoercible B item_data \<or> uncoercible B item_data ''item_rate''
      \<or> uncoercible B item_data ''item_quantity'')"

definition has_uncoercible_field :: "builtins \<Rightarrow> json \<Rightarrow> bool" where
  "has_uncoercible_field B extracted =
     (uncoercible B extracted ''actual_bill_total''
      \<or> list_ex (\<lambda>page_data. uncoercible B page_data ''sub_total'') (raw_pages extracted)
      \<or> list_ex (item_uncoercible B) (payload_items extracted))"

text \<open>How an output item and an output page relate to the entries they were built from.\<close>

definition item_conv :: "builtins \<Rightarrow> json \<Rightarrow> bill_item \<Rightarrow> bool" where
  "item_conv B item_data item = (make_bill_item B item_data = Inr item)"

definition page_conv :: "builtins \<Rightarrow> json \<Rightarrow> page_wise_line_items \<Rightarrow> bool" where
  "page_conv B page_data page =
     (list_all2 (item_conv B) (raw_items page_data) (bill_items page)
      \<and> float_or_none B page_data ''sub_total'' = Inr (sub_total page))"

text \<open>
  An optional numeric field is kept: the output is absent exactly when the field is absent,
  and a numeric zero stays the number 0.
\<close>

definition optional_kept :: "json \<Rightarrow> string \<Rightarrow> pyfloat option \<Rightarrow> bool" where
  "optional_kept d key out =
     ((out = None) = field_absent d key \<and> (field_zero d key \<longrightarrow> out = Some (Finite 0)))"

definition item_fields_kept :: "json \<Rightarrow> bill_item \<Rightarrow> bool" where
  "item_fields_kept item_data item =
     (optional_kept item_data ''item_rate'' (item_rate item)
      \<and> optional_kept item_data ''item_quantity'' (item_quantity item))"

definition page_fields_kept :: "json \<Rightarrow> page_wise_line_items \<Rightarrow> bool" where
  "page_fields_kept page_data page =
     (optional_kept page_data ''sub_total'' (sub_total page)
      \<and> list_all2 item_fields_kept (raw_items page_data) (bill_items page))"

text \<open>
  The completion target of a request: the model named in a chat completion, and the model
  the Gemini client was created with (line 36).
\<close>

fun model_of :: "llm_request \<Rightarrow> string" where
  "model_of (ChatCompletion model prompt img_base64) = model"
| "model_of (GeminiGenerate prompt img) = ''gemini-2.5-flash''"

text \<open>A dict without one of its keys.\<close>

fun without_key :: "string \<Rightarrow> json \<Rightarrow> json" where
  "without_key key (JObj kvs) = JObj (filter (\<lambda>kv. fst kv \<noteq> key) kvs)"
| "without_key key v = v"

text \<open>A payload without its stated total and without the sub-totals of its pages.\<close>

fun without_sub_totals :: "json \<Rightarrow> json" where
  "without_sub_totals (JArr page_list) = JArr (map (without_key ''sub_total'') page_list)"
| "without_sub_totals v = v"

definition without_totals :: "json \<Rightarrow> json" where
  "without_totals extracted =
     (case without_key ''actual_bill_total'' extracted of
        JObj kvs \<Rightarrow>
          JObj (map (\<lambda>kv. if fst kv = ''pagewise_line_items''
                          then (fst kv, without_sub_totals (snd kv)) else kv) kvs)
      | v \<Rightarrow> v)"

section \<open>Example payloads\<close>

text \<open>
  In the examples no string is converted to a number except \<^verbatim>\<open>"abc"\<close>, which \<^verbatim>\<open>float\<close>
  rejects, and \<^verbatim>\<open>str\<close> is applied to strings only.
\<close>

definition example_builtins :: builtins where
  "example_builtins =
     \<lparr>str_to_float = (\<lambda>s. None),
      to_str = (\<lambda>v. case v of JStr s \<Rightarrow> s | _ \<Rightarrow> ''?'')\<rparr>"

definition one_page :: "json list \<Rightarrow> json" where
  "one_page item_list = JObj [(''page_no'', JStr ''1''), (''bill_items'', JArr item_list)]"



text \<open>Two pages; the items 0.125 and 0.25, sub-totals 5 and 6, and a stated total of 7.\<close>

definition payload_fraction :: json where
  "payload_fraction =
     JObj [(''pagewise_line_items'',
            JArr [JObj [(''page_no'', JStr ''1''),
                        (''bill_items'',
                         JArr [JObj [(''item_name'', JStr ''Swab''),
                                     (''item_amount'', JFloat (Finite (1 / 8)))]]),
                        (''sub_total'', JInt 5)],
                  JObj [(''page_no'', JStr ''2''),
                        (''bill_items'',
                         JArr [JObj [(''item_name'', JStr ''Gauze''),
                                     (''item_amount'', JFloat (Finite (1 / 4)))]]),
                        (''sub_total'', JInt 6)]]),
           (''actual_bill_total'', JInt 7)]"

text \<open>The items 2.987 and 0.308, each the double that \<^verbatim>\<open>json.loads\<close> gives for the literal.\<close>

definition payload_decimal :: json where
  "payload_decimal =
     JObj [(''pagewise_line_items'',
            JArr [one_page [JObj [(''item_name'', JStr ''Lotion''),
                                  (''item_amount'', JFloat (to_double (2987 / 1000)))],
                            JObj [(''item_name'', JStr ''Tape''),
                                  (''item_amount'', JFloat (to_double (308 / 1000)))]]])]"


text \<open>One item of 10 and a stated total of 0.\<close>

definition payload_zero_total :: json where
  "payload_zero_total =
     JObj [(''pagewise_line_items'',
            JArr [one_page [JObj [(''item_name'', JStr ''Syringe''),
                                  (''item_amount'', JInt 10)]]]),
           (''actual_bill_total'', JInt 0)]"

text \<open>
  A page without sub-total; one item with a \<^verbatim>\<open>null\<close> rate and the quantity 0, one with
  the rate 0.0 and no quantity.
\<close>

definition payload_unknowns :: json where
  "payload_unknowns =
     JObj [(''pagewise_line_items'',
            JArr [one_page [JObj [(''item_name'', JStr ''Sample''),
                                  (''item_amount'', JInt 40),
                                  (''item_rate'', JNull),
                                  (''item_quantity'', JInt 0)],
                            JObj [(''item_name'', JStr ''Gift''),
                                  (''item_amount'', JInt 0),
                                  (''item_rate'', JFloat (Finite 0))]]])]"

text \<open>An item whose amount is \<^verbatim>\<open>null\<close>, an item without amount, an item whose rate is text.\<close>

definition payload_null_amount :: json where
  "payload_null_amount =
     JObj [(''pagewise_line_items'',
            JArr [one_page [JObj [(''item_name'', JStr ''Bandage''),
                                  (''item_amount'', JNull)]]])]"

definition payload_no_amount :: json where
  "payload_no_amount =
     JObj [(''pagewise_line_items'',
            JArr [one_page [JObj [(''item_name'', JStr ''Bandage'')]]])]"

definition payload_bad_rate :: json where
  "payload_bad_rate =
     JObj [(''pagewise_line_items'',
            JArr [one_page [JObj [(''item_name'', JStr ''Bandage''),
                                  (''item_amount'', JInt 20),
                                  (''item_rate'', JStr ''abc'')]]])]"

text \<open>
  A world in which the model answers every request and the answer parses to the given
  payload, and a world in which every request to the model raises.
\<close>

definition answering_world :: "json \<Rightarrow> world" where
  "answering_world payload =
     \<lparr>py = example_builtins,
      extraction_prompt = ''Extract the bill.'',
      png_base64 = (\<lambda>img. Some img),
      llm = (\<lambda>req. Some ''{}''),
      json_loads = (\<lambda>s. Some payload)\<rparr>"

definition silent_world :: world where
  "silent_world =
     \<lparr>py = example_builtins,
      extraction_prompt = ''Extract the bill.'',
      png_base64 = (\<lambda>img. Some img),
      llm = (\<lambda>req. None),
      json_loads = (\<lambda>s. None)\<rparr>"

definition gemini_service :: service where
  "gemini_service = \<lparr>provider = ''gemini'', openai_client = False, gemini_model = True\<rparr>"

definition openai_service :: service where
  "openai_service = \<lparr>provider = ''openai'', openai_client = True, gemini_model = False\<rparr>"

text \<open>An acquisition that succeeds on every document.\<close>

definition scanned :: "string \<Rightarrow> ocr_result option outcome" where
  "scanned document = Returns (Some \<lparr>ocr_text_of = ''TOTAL 120'', ocr_image_of = ''png''\<rparr>)"



definition result_fraction :: extracted_data where
  "result_fraction =
     \<lparr>pagewise_line_items =
        [\<lparr>page_no = ''1'',
          bill_items =
            [\<lparr>item_name = ''Swab'', item_amount = Finite (1 / 8), item_rate = None,
              item_quantity = None\<rparr>],
          sub_total = Some (Finite 5)\<rparr>,
         \<lparr>page_no = ''2'',
          bill_items =
            [\<lparr>item_name = ''Gauze'', item_amount = Finite (1 / 4), item_rate = None,
              item_quantity = None\<rparr>],
          sub_total = Some (Finite 6)\<rparr>],
      total_item_count = 2, reconciled_amount = to_double (19 / 50), actual_bill_total = Some (Finite 7),
      accuracy_percentage = Some (to_double (134 / 25))\<rparr>"

definition result_decimal :: extracted_data where
  "result_decimal =
     \<lparr>pagewise_line_items =
        [\<lparr>page_no = ''1'',
          bill_items =
            [\<lparr>item_name = ''Lotion'', item_amount = to_double (2987 / 1000), item_rate = None,
              item_quantity = None\<rparr>,
             \<lparr>item_name = ''Tape'', item_amount = to_double (308 / 1000), item_rate = None,
              item_quantity = None\<rparr>],
          sub_total = None\<rparr>],
      total_item_count = 2, reconciled_amount = to_double (329 / 100),
      actual_bill_total = None, accuracy_percentage = None\<rparr>"


definition result_zero_total :: extracted_data where
  "result_zero_total =
     \<lparr>pagewise_line_items =
        [\<lparr>page_no = ''1'',
          bill_items =
            [\<lparr>item_name = ''Syringe'', item_amount = Finite 10, item_rate = None,
              item_quantity = None\<rparr>],
          sub_total = None\<rparr>],
      total_item_count = 1, reconciled_amount = Finite 10, actual_bill_total = None,
      accuracy_percentage = None\<rparr>"

definition result_unknowns :: extracted_data where
  "result_unknowns =
     \<lparr>pagewise_line_items =
        [\<lparr>page_no = ''1'',
          bill_items =
            [\<lparr>item_name = ''Sample'', item_amount = Finite 40, item_rate = None,
              item_quantity = Some (Finite 0)\<rparr>,
             \<lparr>item_name = ''Gift'', item_amount = Finite 0, item_rate = Some (Finite 0),
              item_quantity = None\<rparr>],
          sub_total = None\<rparr>],
      total_item_count = 2, reconciled_amount = Finite 40, actual_bill_total = None,
      accuracy_percentage = None\<rparr>"

definition result_no_amount :: extracted_data where
  "result_no_amount =
     \<lparr>pagewise_line_items =
        [\<lparr>page_no = ''1'',
          bill_items =
            [\<lparr>item_name = ''Bandage'', item_amount = Finite 0, item_rate = None,
              item_quantity = None\<rparr>],
          sub_total = None\<rparr>],
      total_item_count = 1, reconciled_amount = Finite 0, actual_bill_total = None,
      accuracy_percentage = None\<rparr>"

section \<open>Facts about floats\<close>

lemma to_double_zero: "to_double 0 = Finite 0"
  by (simp add: to_double_def)

lemma py_float_zero: "py_float B (JInt 0) = Inr (Finite 0)"
  by (simp add: to_double_zero)

lemma gt_zero_truthy: "f_gt_zero t \<Longrightarrow> f_truthy t"
  by (cases t) auto

lemma py_div_truthy: "f_truthy t \<Longrightarrow> py_div x t = Inr (f_div x t)"
  by (cases t) (auto simp: py_div_def)

text \<open>Lines 331-334 never raise: the division is guarded by the test of line 332.\<close>

lemma accuracy_case:
  "(case actual_total of
      None \<Rightarrow> Inr None
    | Some t \<Rightarrow>
        if f_truthy t \<and> f_gt_zero t
        then (case py_div (f_abs (f_sub r t)) t of
                Inl e \<Rightarrow> Inl e
              | Inr q \<Rightarrow> Inr (Some (py_round2 (f_mul (Finite 100) (f_sub (Finite 1) q)))))
        else Inr None)
   = Inr (case actual_total of
            None \<Rightarrow> None
          | Some t \<Rightarrow> if f_gt_zero t then Some (accuracy_formula r t) else None)"
proof (cases actual_total)
  case None
  then show ?thesis by simp
next
  case (Some t)
  show ?thesis
  proof (cases "f_gt_zero t")
    case True
    with gt_zero_truthy [OF True] py_div_truthy [OF gt_zero_truthy [OF True]] Some
    show ?thesis by (simp add: accuracy_formula_def)
  next
    case False
    with Some show ?thesis by simp
  qed
qed

section \<open>The loops of the reconciliation\<close>

lemma items_loop_Inr:
  "items_loop B xs (items, r, n) = Inr (items', r', n') \<Longrightarrow>
   \<exists>outs. list_all2 (item_conv B) xs outs \<and> items' = items @ outs
        \<and> r' = foldl f_add r (map item_amount outs) \<and> n' = n + int (length outs)"
proof (induction xs arbitrary: items r n)
  case Nil
  then show ?case by simp
next
  case (Cons x xs)
  from Cons.prems obtain it where it: "make_bill_item B x = Inr it"
    and rest: "items_loop B xs (items @ [it], f_add r (item_amount it), n + 1)
                 = Inr (items', r', n')"
    by (auto split: sum.splits)
  from Cons.IH [OF rest] obtain outs where
    "list_all2 (item_conv B) xs outs" "items' = (items @ [it]) @ outs"
    "r' = foldl f_add (f_add r (item_amount it)) (map item_amount outs)"
    "n' = n + 1 + int (length outs)"
    by blast
  with it have "list_all2 (item_conv B) (x # xs) (it # outs) \<and> items' = items @ (it # outs)
        \<and> r' = foldl f_add r (map item_amount (it # outs))
        \<and> n' = n + int (length (it # outs))"
    by (simp add: item_conv_def)
  then show ?case by blast
qed

lemma pages_loop_Inr:
  "pages_loop B ps (acc, r, n) = Inr (acc', r', n') \<Longrightarrow>
   \<exists>outs. list_all2 (page_conv B) ps outs \<and> acc' = acc @ outs
        \<and> r' = foldl f_add r (map item_amount (concat (map bill_items outs)))
        \<and> n' = n + int (length (concat (map bill_items outs)))"
proof (induction ps arbitrary: acc r n)
  case Nil
  then show ?case by simp
next
  case (Cons p ps)
  from Cons.prems obtain raw its items r1 n1 pn sub where
    g: "py_get p ''bill_items'' (JArr []) = Inr raw" and
    i: "py_iter raw = Inr its" and
    l: "items_loop B its ([], r, n) = Inr (items, r1, n1)" and
    s: "float_or_none B p ''sub_total'' = Inr sub" and
    rest: "pages_loop B ps (acc @ [\<lparr>page_no = pn, bill_items = items, sub_total = sub\<rparr>], r1, n1)
             = Inr (acc', r', n')"
    by (auto split: sum.splits prod.splits)
  let ?pg = "\<lparr>page_no = pn, bill_items = items, sub_total = sub\<rparr>"
  from items_loop_Inr [OF l] have
    a: "list_all2 (item_conv B) its items"
    and b: "r1 = foldl f_add r (map item_amount items)" and c: "n1 = n + int (length items)"
    by auto
  from g i have ri: "raw_items p = its" by (simp add: raw_items_def)
  from a s ri have pc: "page_conv B p ?pg" by (simp add: page_conv_def)
  from Cons.IH [OF rest] obtain outs where
    "list_all2 (page_conv B) ps outs" "acc' = (acc @ [?pg]) @ outs"
    "r' = foldl f_add r1 (map item_amount (concat (map bill_items outs)))"
    "n' = n1 + int (length (concat (map bill_items outs)))"
    by blast
  with pc b c have "list_all2 (page_conv B) (p # ps) (?pg # outs) \<and> acc' = acc @ (?pg # outs)
        \<and> r' = foldl f_add r (map item_amount (concat (map bill_items (?pg # outs))))
        \<and> n' = n + int (length (concat (map bill_items (?pg # outs))))"
    by simp
  then show ?case by blast
qed

lemma item_conv_amount: "item_conv B raw it \<Longrightarrow> item_amount it = raw_amount B raw"
  by (auto simp: item_conv_def make_bill_item_def raw_amount_def split: sum.splits json.splits)

lemma item_conv_amounts:
  "list_all2 (item_conv B) xs outs \<Longrightarrow> map item_amount outs = map (raw_amount B) xs"
  by (induction rule: list_all2_induct) (auto simp: item_conv_amount)

lemma page_conv_amounts:
  "list_all2 (page_conv B) ps outs \<Longrightarrow>
   map item_amount (concat (map bill_items outs)) = map (raw_amount B) (concat (map raw_items ps))"
  by (induction rule: list_all2_induct) (auto simp: page_conv_def item_conv_amounts)

lemma page_conv_lengths:
  "list_all2 (page_conv B) ps outs \<Longrightarrow>
   length (concat (map bill_items outs)) = length (concat (map raw_items ps))"
  by (induction rule: list_all2_induct) (auto simp: page_conv_def dest: list_all2_lengthD)

text \<open>The shape of every accepted payload.\<close>

lemma reconcile_amounts_Inr:
  assumes "reconcile_amounts B p = Inr d"
  shows "\<exists>t. float_or_none B p ''actual_bill_total'' = Inr t
     \<and> list_all2 (page_conv B) (raw_pages p) (pagewise_line_items d)
     \<and> total_item_count d = int (length (all_items d))
     \<and> reconciled_amount d = py_round2 (float_sum (map item_amount (all_items d)))
     \<and> actual_bill_total d =
         (case t of None \<Rightarrow> None | Some t \<Rightarrow> if f_truthy t then Some (py_round2 t) else None)
     \<and> accuracy_percentage d =
         (case t of
            None \<Rightarrow> None
          | Some t \<Rightarrow>
              if f_gt_zero t
              then Some (accuracy_formula (float_sum (map item_amount (all_items d))) t)
              else None)"
proof -
  from assms obtain raw ps acc r n t where
    g: "py_get p ''pagewise_line_items'' (JArr []) = Inr raw" and
    i: "py_iter raw = Inr ps" and
    l: "pages_loop B ps ([], Finite 0, 0) = Inr (acc, r, n)" and
    t: "float_or_none B p ''actual_bill_total'' = Inr t" and
    d: "d = \<lparr>pagewise_line_items = acc, total_item_count = n, reconciled_amount = py_round2 r,
              actual_bill_total =
                (case t of None \<Rightarrow> None
                 | Some t \<Rightarrow> if f_truthy t then Some (py_round2 t) else None),
              accuracy_percentage =
                (case t of None \<Rightarrow> None
                 | Some t \<Rightarrow> if f_gt_zero t then Some (accuracy_formula r t) else None)\<rparr>"
    unfolding reconcile_amounts_def accuracy_case
    by (auto split: sum.splits prod.splits)
  from g i have rp: "raw_pages p = ps" by (simp add: raw_pages_def)
  from pages_loop_Inr [OF l] have
    a: "list_all2 (page_conv B) ps acc"
    and b: "r = float_sum (map item_amount (concat (map bill_items acc)))"
    and c: "n = int (length (concat (map bill_items acc)))"
    by (auto simp: float_sum_def)
  have ai: "all_items d = concat (map bill_items acc)" by (simp add: d all_items_def)
  show ?thesis
    using t a b c rp ai by (auto simp: d split: option.splits)
qed

section \<open>Failures of the reconciliation\<close>

lemma items_loop_fail:
  "x \<in> set xs \<Longrightarrow> isl (make_bill_item B x) \<Longrightarrow> isl (items_loop B xs st)"
proof (induction xs arbitrary: st)
  case Nil
  then show ?case by simp
next
  case (Cons a xs)
  obtain items r n where st: "st = (items, r, n)" by (cases st) auto
  show ?case
  proof (cases "make_bill_item B a")
    case (Inl e)
    then show ?thesis by (simp add: st)
  next
    case (Inr it)
    with Cons.prems have "x \<in> set xs" by auto
    from Cons.IH [OF this Cons.prems(2)] Inr show ?thesis by (simp add: st)
  qed
qed

lemma raw_items_mem:
  assumes "item \<in> set (raw_items page_data)"
  shows "\<exists>raw its. py_get page_data ''bill_items'' (JArr []) = Inr raw \<and> py_iter raw = Inr its
     \<and> item \<in> set its"
proof (cases "py_get page_data ''bill_items'' (JArr [])")
  case (Inl e)
  with assms show ?thesis by (simp add: raw_items_def)
next
  case (Inr raw)
  with assms show ?thesis by (cases "py_iter raw") (simp_all add: raw_items_def)
qed

lemma page_step_fail_item:
  assumes "item \<in> set (raw_items page_data)" and "isl (make_bill_item B item)"
  shows "isl (pages_loop B (page_data # rest) st)"
proof -
  obtain acc r n where st: "st = (acc, r, n)" by (cases st) auto
  from raw_items_mem [OF assms(1)] obtain raw its where
    g: "py_get page_data ''bill_items'' (JArr []) = Inr raw" and i: "py_iter raw = Inr its"
    and m: "item \<in> set its" by blast
  from items_loop_fail [OF m assms(2), of "([], r, n)"] obtain e where
    "items_loop B its ([], r, n) = Inl e" by (auto simp: isl_def)
  with g i show ?thesis by (simp add: st)
qed

lemma page_step_fail_sub:
  assumes "isl (float_or_none B page_data ''sub_total'')"
  shows "isl (pages_loop B (page_data # rest) st)"
proof -
  obtain acc r n where st: "st = (acc, r, n)" by (cases st) auto
  from assms obtain e where "float_or_none B page_data ''sub_total'' = Inl e"
    by (auto simp: isl_def)
  then show ?thesis
    by (simp add: st split: sum.splits prod.splits)
qed

lemma page_step_ok:
  "\<not> isl (pages_loop B (page_data # rest) st) \<Longrightarrow> \<exists>st'. pages_loop B (page_data # rest) st = pages_loop B rest st'"
  by (cases st) (auto split: sum.splits prod.splits)

lemma pages_loop_fail_item:
  "page_data \<in> set ps \<Longrightarrow> item \<in> set (raw_items page_data) \<Longrightarrow> isl (make_bill_item B item)
   \<Longrightarrow> isl (pages_loop B ps st)"
proof (induction ps arbitrary: st)
  case Nil
  then show ?case by simp
next
  case (Cons a ps)
  show ?case
  proof (cases "a = page_data")
    case True
    with Cons.prems show ?thesis by (simp only: page_step_fail_item)
  next
    case False
    with Cons.prems have m: "page_data \<in> set ps" by auto
    show ?thesis
    proof (rule ccontr)
      assume n: "\<not> isl (pages_loop B (a # ps) st)"
      from page_step_ok [OF n] obtain st' where
        "pages_loop B (a # ps) st = pages_loop B ps st'" by blast
      with Cons.IH [OF m Cons.prems(2,3), of st'] n show False by simp
    qed
  qed
qed

lemma pages_loop_fail_sub:
  "page_data \<in> set ps \<Longrightarrow> isl (float_or_none B page_data ''sub_total'')
   \<Longrightarrow> isl (pages_loop B ps st)"
proof (induction ps arbitrary: st)
  case Nil
  then show ?case by simp
next
  case (Cons a ps)
  show ?case
  proof (cases "a = page_data")
    case True
    with Cons.prems show ?thesis by (simp only: page_step_fail_sub)
  next
    case False
    with Cons.prems have m: "page_data \<in> set ps" by auto
    show ?thesis
    proof (rule ccontr)
      assume n: "\<not> isl (pages_loop B (a # ps) st)"
      from page_step_ok [OF n] obtain st' where
        "pages_loop B (a # ps) st = pages_loop B ps st'" by blast
      with Cons.IH [OF m Cons.prems(2), of st'] n show False by simp
    qed
  qed
qed

lemma uncoercible_fails: "uncoercible B d key \<Longrightarrow> isl (float_or_none B d key)"
  by (auto simp: uncoercible_def float_or_none_def isl_def split: sum.splits)

lemma item_uncoercible_fails: "item_uncoercible B item_data \<Longrightarrow> isl (make_bill_item B item_data)"
  unfolding item_uncoercible_def amount_uncoercible_def uncoercible_def make_bill_item_def
    float_or_none_def
  by (auto simp: isl_def split: sum.splits json.splits)

lemma raw_pages_mem:
  assumes "page_data \<in> set (raw_pages p)"
  shows "\<exists>raw ps. py_get p ''pagewise_line_items'' (JArr []) = Inr raw \<and> py_iter raw = Inr ps
     \<and> page_data \<in> set ps"
proof (cases "py_get p ''pagewise_line_items'' (JArr [])")
  case (Inl e)
  with assms show ?thesis by (simp add: raw_pages_def)
next
  case (Inr raw)
  with assms show ?thesis by (cases "py_iter raw") (simp_all add: raw_pages_def)
qed

lemma reconcile_fail_pages:
  assumes "page_data \<in> set (raw_pages p)" and "\<And>ps st. page_data \<in> set ps \<Longrightarrow> isl (pages_loop B ps st)"
  shows "isl (reconcile_amounts B p)"
proof -
  from raw_pages_mem [OF assms(1)] obtain raw ps where
    g: "py_get p ''pagewise_line_items'' (JArr []) = Inr raw" and i: "py_iter raw = Inr ps"
    and m: "page_data \<in> set ps" by blast
  from assms(2) [OF m, of "([], Finite 0, 0)"] obtain e where
    "pages_loop B ps ([], Finite 0, 0) = Inl e"
    by (auto simp: isl_def)
  with g i show ?thesis by (simp add: reconcile_amounts_def)
qed

lemma reconcile_fail_item:
  assumes "item \<in> set (payload_items p)" and "isl (make_bill_item B item)"
  shows "isl (reconcile_amounts B p)"
proof -
  from assms(1) obtain page_data where
    pg: "page_data \<in> set (raw_pages p)" and it: "item \<in> set (raw_items page_data)"
    by (auto simp: payload_items_def)
  show ?thesis
    by (rule reconcile_fail_pages [OF pg]) (rule pages_loop_fail_item [OF _ it assms(2)])
qed

lemma reconcile_fail_total:
  assumes "isl (float_or_none B p ''actual_bill_total'')"
  shows "isl (reconcile_amounts B p)"
proof -
  from assms obtain e where "float_or_none B p ''actual_bill_total'' = Inl e"
    by (auto simp: isl_def)
  then show ?thesis
    unfolding reconcile_amounts_def accuracy_case
    by (simp split: sum.splits prod.splits)
qed

lemma reconcile_fails:
  assumes "has_uncoercible_field B p"
  shows "isl (reconcile_amounts B p)"
proof -
  from assms consider
    (total) "uncoercible B p ''actual_bill_total''"
    | (sub) page_data where "page_data \<in> set (raw_pages p)" "uncoercible B page_data ''sub_total''"
    | (item) item where "item \<in> set (payload_items p)" "item_uncoercible B item"
    by (auto simp: has_uncoercible_field_def list_ex_iff)
  then show ?thesis
  proof cases
    case total
    then show ?thesis by (simp only: reconcile_fail_total uncoercible_fails)
  next
    case sub
    show ?thesis
      by (rule reconcile_fail_pages [OF sub(1)])
         (rule pages_loop_fail_sub [OF _ uncoercible_fails [OF sub(2)]])
  next
    case item
    then show ?thesis by (simp only: reconcile_fail_item item_uncoercible_fails)
  qed
qed

lemma extract_bill_data_snd:
  "snd (extract_bill_data W svc img ocr_text) =
     (let extracted = snd (run_strategies W svc img ocr_text)
      in if \<not> py_truthy extracted then None
         else (case reconcile_amounts (py W) extracted of Inl e \<Rightarrow> None | Inr d \<Rightarrow> Some d))"
  by (simp add: extract_bill_data_def Let_def split: prod.splits sum.splits)

section \<open>The example payloads, evaluated\<close>



lemma fraction_eval: "reconcile_amounts example_builtins payload_fraction = Inr result_fraction"
  by code_simp

lemma decimal_eval: "reconcile_amounts example_builtins payload_decimal = Inr result_decimal"
  by code_simp


lemma zero_total_eval:
  "reconcile_amounts example_builtins payload_zero_total = Inr result_zero_total"
  by code_simp

lemma unknowns_eval: "reconcile_amounts example_builtins payload_unknowns = Inr result_unknowns"
  by code_simp

section \<open>Properties of the reconciliation\<close>

lemma reconcile_amounts_payload:
  assumes "reconcile_amounts B p = Inr d"
  shows "map item_amount (all_items d) = payload_amounts B p"
    and "length (all_items d) = length (payload_items p)"
proof -
  from reconcile_amounts_Inr [OF assms] have
    a: "list_all2 (page_conv B) (raw_pages p) (pagewise_line_items d)" by blast
  show "map item_amount (all_items d) = payload_amounts B p"
    using page_conv_amounts [OF a]
    by (simp add: all_items_def payload_amounts_def payload_items_def)
  show "length (all_items d) = length (payload_items p)"
    using page_conv_lengths [OF a] by (simp add: all_items_def payload_items_def)
qed

text \<open>
  C7: for every accepted payload, \<^verbatim>\<open>total_item_count\<close> is the number of items on all pages
  of the output, which is also the number of item entries on all page entries of the
  payload.
\<close>

theorem C7_total_item_count:
  assumes "reconcile_amounts B p = Inr d"
  shows "total_item_count d = int (length (all_items d))
       \<and> total_item_count d = int (length (payload_items p))"
proof -
  from reconcile_amounts_Inr [OF assms] have
    "total_item_count d = int (length (all_items d))" by blast
  with reconcile_amounts_payload(2) [OF assms] show ?thesis by simp
qed

theorem C7_total_item_count_witness:
  "reconcile_amounts example_builtins payload_fraction = Inr result_fraction
   \<and> total_item_count result_fraction = int (length (all_items result_fraction))
   \<and> total_item_count result_fraction = int (length (payload_items payload_fraction))
   \<and> total_item_count result_fraction = 2"
  using C7_total_item_count [OF fraction_eval] fraction_eval
  by (simp add: result_fraction_def)

lemma map_of_without:
  "map_of (filter (\<lambda>kv. fst kv \<noteq> key) kvs) k = (if k = key then None else map_of kvs k)"
  by (induction kvs) auto

lemma py_get_without_key:
  "k \<noteq> key \<Longrightarrow> py_get (without_key key d) k dflt = py_get d k dflt"
  by (cases d) (simp_all add: map_of_without)

lemma map_of_update_value:
  "map_of (map (\<lambda>kv. if fst kv = key then (fst kv, f (snd kv)) else kv) kvs) k
     = (if k = key then map_option f (map_of kvs k) else map_of kvs k)"
  by (induction kvs) auto

lemma raw_items_without_sub_total:
  "raw_items (without_key ''sub_total'' page_data) = raw_items page_data"
  by (simp add: raw_items_def py_get_without_key)

lemma py_iter_without_sub_totals:
  "py_iter (without_sub_totals v) = map_sum id (map (without_key ''sub_total'')) (py_iter v)"
  by (cases v) (simp_all add: comp_def)

lemma raw_pages_without_totals:
  "raw_pages (without_totals p) = map (without_key ''sub_total'') (raw_pages p)"
proof (cases p)
  case (JObj kvs)
  show ?thesis
  proof (cases "map_of kvs ''pagewise_line_items''")
    case None
    with JObj show ?thesis
      by (simp add: raw_pages_def without_totals_def map_of_update_value map_of_without)
  next
    case (Some v)
    with JObj show ?thesis
      by (cases "py_iter v")
         (simp_all add: raw_pages_def without_totals_def map_of_update_value map_of_without
            py_iter_without_sub_totals)
  qed
qed (simp_all add: raw_pages_def without_totals_def)

lemma payload_items_without_totals: "payload_items (without_totals p) = payload_items p"
  by (simp add: payload_items_def raw_pages_without_totals comp_def raw_items_without_sub_total)

text \<open>
  C1, as amended: for every accepted payload, \<^verbatim>\<open>reconciled_amount\<close> is the sum of the
  \<^verbatim>\<open>item_amount\<close> values of all items on all pages, added up as floats from \<^verbatim>\<open>0.0\<close> in the
  order of the payload, and then rounded to 2 decimal places. The sum reads the
  \<^verbatim>\<open>item_amount\<close> fields only: the amounts are the same for the payload without its
  \<^verbatim>\<open>sub_total\<close> and \<^verbatim>\<open>actual_bill_total\<close> fields.
\<close>

theorem C1_reconciled_amount_is_rounded_item_sum:
  assumes "reconcile_amounts B p = Inr d"
  shows "reconciled_amount d = py_round2 (float_sum (payload_amounts B p))
       \<and> reconciled_amount d = py_round2 (float_sum (map item_amount (all_items d)))
       \<and> payload_amounts B (without_totals p) = payload_amounts B p"
proof -
  from reconcile_amounts_Inr [OF assms] have
    "reconciled_amount d = py_round2 (float_sum (map item_amount (all_items d)))" by blast
  with reconcile_amounts_payload(1) [OF assms] show ?thesis
    by (simp add: payload_amounts_def payload_items_without_totals)
qed

lemma fraction_sum: "float_sum (payload_amounts example_builtins payload_fraction) = Finite (3 / 8)"
  by code_simp

lemma decimal_sum:
  "float_sum (payload_amounts example_builtins payload_decimal)
     = Finite (1854920096523223 / 562949953421312)"
  by code_simp

lemma decimal_rounded: "to_double (329 / 100) \<noteq> to_double (33 / 10)"
  by code_simp

theorem C1_reconciled_amount_is_rounded_item_sum_witness:
  "reconcile_amounts example_builtins payload_fraction = Inr result_fraction
   \<and> float_sum (payload_amounts example_builtins payload_fraction) = Finite (3 / 8)
   \<and> reconciled_amount result_fraction = py_round2 (Finite (3 / 8))
   \<and> reconciled_amount result_fraction = to_double (19 / 50)
   \<and> reconcile_amounts example_builtins payload_decimal = Inr result_decimal
   \<and> float_sum (payload_amounts example_builtins payload_decimal)
       = Finite (1854920096523223 / 562949953421312)
   \<and> reconciled_amount result_decimal
       = py_round2 (Finite (1854920096523223 / 562949953421312))
   \<and> reconciled_amount result_decimal = to_double (329 / 100)
   \<and> to_double (329 / 100) \<noteq> to_double (33 / 10)"
  using C1_reconciled_amount_is_rounded_item_sum [OF fraction_eval]
    C1_reconciled_amount_is_rounded_item_sum [OF decimal_eval]
    fraction_sum decimal_sum decimal_rounded fraction_eval decimal_eval
  by (simp add: result_fraction_def result_decimal_def)

lemma fraction_rounded: "to_double (19 / 50) \<noteq> Finite (3 / 8)"
  by code_simp

text \<open>
  C1, at a payload with the items 0.125 and 0.25 on two pages: the sum of the item amounts
  is 0.375 and \<^verbatim>\<open>reconciled_amount\<close> is 0.38.
\<close>

theorem C1_reconciled_amount_counterexample:
  "reconcile_amounts example_builtins payload_fraction = Inr result_fraction
   \<and> reconciled_amount result_fraction = to_double (19 / 50)
   \<and> float_sum (payload_amounts example_builtins payload_fraction) = Finite (3 / 8)
   \<and> reconciled_amount result_fraction
       \<noteq> float_sum (payload_amounts example_builtins payload_fraction)"
  using fraction_eval fraction_sum fraction_rounded
  by (simp add: result_fraction_def)

lemma stated_total_Inr:
  "float_or_none B p ''actual_bill_total'' = Inr t \<Longrightarrow> stated_total B p = t"
  by (simp add: stated_total_def)







text \<open>
  What holds of the rounding for every accepted payload: the running sum is rounded once,
  and a stated total other than zero is returned rounded.
\<close>

lemma rounded_at_finalization:
  assumes "reconcile_amounts B p = Inr d"
  shows "reconciled_amount d = py_round2 (float_sum (payload_amounts B p))"
    and "stated_total B p = Some t \<Longrightarrow> f_truthy t \<Longrightarrow> actual_bill_total d = Some (py_round2 t)"
    and "stated_total B p = None \<Longrightarrow> actual_bill_total d = None"
proof -
  from reconcile_amounts_Inr [OF assms] obtain t' where
    t: "float_or_none B p ''actual_bill_total'' = Inr t'" and
    r: "reconciled_amount d = py_round2 (float_sum (map item_amount (all_items d)))" and
    a: "actual_bill_total d =
          (case t' of None \<Rightarrow> None | Some t \<Rightarrow> if f_truthy t then Some (py_round2 t) else None)"
    by blast
  from r show "reconciled_amount d = py_round2 (float_sum (payload_amounts B p))"
    by (simp add: reconcile_amounts_payload(1) [OF assms])
  show "stated_total B p = Some t \<Longrightarrow> f_truthy t \<Longrightarrow> actual_bill_total d = Some (py_round2 t)"
    using a by (simp add: stated_total_Inr [OF t])
  show "stated_total B p = None \<Longrightarrow> actual_bill_total d = None"
    using a by (simp add: stated_total_Inr [OF t])
qed

lemma zero_total_stated: "stated_total example_builtins payload_zero_total = Some (Finite 0)"
  by code_simp

text \<open>
  C5, at a payload whose stated total is the number 0: the total is present and numeric,
  and the returned \<^verbatim>\<open>actual_bill_total\<close> is absent, not 0 rounded to 2 decimal places.
\<close>

theorem C5_zero_total_is_not_returned_rounded:
  "reconcile_amounts example_builtins payload_zero_total = Inr result_zero_total
   \<and> stated_total example_builtins payload_zero_total = Some (Finite 0)
   \<and> actual_bill_total result_zero_total = None
   \<and> actual_bill_total result_zero_total \<noteq> Some (py_round2 (Finite 0))"
  using zero_total_eval zero_total_stated by (simp add: result_zero_total_def)

lemma stated_total_is_dict:
  assumes "stated_total B p = Some t"
  shows "\<exists>kvs. p = JObj kvs"
  using assms by (cases p) (simp_all add: stated_total_def float_or_none_def)

lemma float_or_none_without_key:
  "float_or_none B (without_key key (JObj kvs)) key = Inr None"
  by (simp add: float_or_none_def map_of_without)

text \<open>
  C9: a payload whose stated total coerces to 0 is reconciled exactly as the same payload
  without the \<^verbatim>\<open>actual_bill_total\<close> key, and the result has neither a stated total nor an
  accuracy.
\<close>

theorem C9_zero_total_is_reported_absent:
  assumes "stated_total B p = Some (Finite 0)"
  shows "reconcile_amounts B p = reconcile_amounts B (without_key ''actual_bill_total'' p)
       \<and> (\<forall>d. reconcile_amounts B p = Inr d
              \<longrightarrow> actual_bill_total d = None \<and> accuracy_percentage d = None)"
proof -
  from stated_total_is_dict [OF assms] obtain kvs where p: "p = JObj kvs" by blast
  from assms have t: "float_or_none B p ''actual_bill_total'' = Inr (Some (Finite 0))"
    by (simp add: stated_total_def split: sum.splits)
  have g: "py_get (without_key ''actual_bill_total'' p) ''pagewise_line_items'' (JArr [])
             = py_get p ''pagewise_line_items'' (JArr [])"
    by (rule py_get_without_key) simp
  have n: "float_or_none B (without_key ''actual_bill_total'' p) ''actual_bill_total'' = Inr None"
    unfolding p by (rule float_or_none_without_key)
  have e: "reconcile_amounts B p = reconcile_amounts B (without_key ''actual_bill_total'' p)"
    unfolding reconcile_amounts_def accuracy_case g n t
    by (simp split: sum.splits prod.splits)
  have "actual_bill_total d = None \<and> accuracy_percentage d = None"
    if "reconcile_amounts B p = Inr d" for d
    using reconcile_amounts_Inr [OF that] t by auto
  with e show ?thesis by blast
qed

theorem C9_zero_total_is_reported_absent_witness:
  "stated_total example_builtins payload_zero_total = Some (Finite 0)
   \<and> reconcile_amounts example_builtins (without_key ''actual_bill_total'' payload_zero_total)
       = Inr result_zero_total
   \<and> actual_bill_total result_zero_total = None
   \<and> accuracy_percentage result_zero_total = None"
  using C9_zero_total_is_reported_absent [OF zero_total_stated] zero_total_stated zero_total_eval
  by simp

lemma float_or_none_kept:
  assumes "float_or_none B d key = Inr out"
  shows "optional_kept d key out"
proof (cases "py_get d key JNull")
  case (Inl e)
  with assms show ?thesis by (simp add: float_or_none_def)
next
  case (Inr v)
  show ?thesis
  proof (cases "v = JNull")
    case True
    with Inr assms show ?thesis
      by (simp add: float_or_none_def optional_kept_def field_absent_def field_zero_def)
  next
    case False
    with Inr assms show ?thesis
      by (auto simp: float_or_none_def optional_kept_def field_absent_def field_zero_def
            to_double_zero split: sum.splits)
  qed
qed

lemma item_conv_kept:
  assumes "item_conv B item_data item"
  shows "item_fields_kept item_data item"
proof -
  from assms have "float_or_none B item_data ''item_rate'' = Inr (item_rate item)"
    and "float_or_none B item_data ''item_quantity'' = Inr (item_quantity item)"
    by (auto simp: item_conv_def make_bill_item_def split: sum.splits json.splits)
  then show ?thesis by (simp add: item_fields_kept_def float_or_none_kept)
qed

lemma page_conv_kept:
  assumes "page_conv B page_data page"
  shows "page_fields_kept page_data page"
proof -
  from assms have i: "list_all2 (item_conv B) (raw_items page_data) (bill_items page)"
    and s: "float_or_none B page_data ''sub_total'' = Inr (sub_total page)"
    by (simp_all add: page_conv_def)
  from i have "list_all2 item_fields_kept (raw_items page_data) (bill_items page)"
    by (rule list_all2_mono) (rule item_conv_kept)
  with float_or_none_kept [OF s] show ?thesis by (simp add: page_fields_kept_def)
qed

text \<open>
  C6: for every accepted payload the output pages and items stand in the order of the
  payload's entries, and each \<^verbatim>\<open>item_rate\<close>, \<^verbatim>\<open>item_quantity\<close> and \<^verbatim>\<open>sub_total\<close> of the output
  is absent exactly when the field is absent (no key, or \<^verbatim>\<open>null\<close>) in the payload; a field
  with the numeric value 0 is the number 0 in the output.
\<close>

theorem C6_absent_stays_absent_zero_stays_zero:
  assumes "reconcile_amounts B p = Inr d"
  shows "list_all2 page_fields_kept (raw_pages p) (pagewise_line_items d)"
proof -
  from reconcile_amounts_Inr [OF assms] have
    "list_all2 (page_conv B) (raw_pages p) (pagewise_line_items d)" by blast
  then show ?thesis by (rule list_all2_mono) (rule page_conv_kept)
qed

theorem C6_absent_stays_absent_zero_stays_zero_witness:
  "reconcile_amounts example_builtins payload_unknowns = Inr result_unknowns
   \<and> list_all2 page_fields_kept (raw_pages payload_unknowns) (pagewise_line_items result_unknowns)
   \<and> map (\<lambda>item. field_absent item ''item_rate'') (payload_items payload_unknowns) = [True, False]
   \<and> map (\<lambda>item. field_zero item ''item_rate'') (payload_items payload_unknowns) = [False, True]
   \<and> map item_rate (all_items result_unknowns) = [None, Some (Finite 0)]
   \<and> map (\<lambda>item. field_absent item ''item_quantity'') (payload_items payload_unknowns) = [False, True]
   \<and> map (\<lambda>item. field_zero item ''item_quantity'') (payload_items payload_unknowns) = [True, False]
   \<and> map item_quantity (all_items result_unknowns) = [Some (Finite 0), None]
   \<and> map (\<lambda>page. field_absent page ''sub_total'') (raw_pages payload_unknowns) = [True]
   \<and> map sub_total (pagewise_line_items result_unknowns) = [None]"
proof -
  have a: "map (\<lambda>item. field_absent item ''item_rate'') (payload_items payload_unknowns) = [True, False]"
    and b: "map (\<lambda>item. field_zero item ''item_rate'') (payload_items payload_unknowns) = [False, True]"
    and c: "map (\<lambda>item. field_absent item ''item_quantity'') (payload_items payload_unknowns) = [False, True]"
    and d: "map (\<lambda>item. field_zero item ''item_quantity'') (payload_items payload_unknowns) = [True, False]"
    and e: "map (\<lambda>page. field_absent page ''sub_total'') (raw_pages payload_unknowns) = [True]"
    by code_simp+
  have f: "map item_rate (all_items result_unknowns) = [None, Some (Finite 0)]"
    and g: "map item_quantity (all_items result_unknowns) = [Some (Finite 0), None]"
    and h: "map sub_total (pagewise_line_items result_unknowns) = [None]"
    by (simp_all add: result_unknowns_def all_items_def)
  from C6_absent_stays_absent_zero_stays_zero [OF unknowns_eval] unknowns_eval a b c d e f g h
  show ?thesis by simp
qed

section \<open>Properties of the request\<close>

lemma isl_extract_None:
  assumes "isl (reconcile_amounts (py W) (snd (run_strategies W svc img ocr_text)))"
  shows "snd (extract_bill_data W svc img ocr_text) = None"
proof -
  from assms obtain e where
    "reconcile_amounts (py W) (snd (run_strategies W svc img ocr_text)) = Inl e"
    by (auto simp: isl_def)
  then show ?thesis by (simp add: extract_bill_data_snd Let_def)
qed

text \<open>
  C3: when the payload that the strategies deliver has a field (\<^verbatim>\<open>item_amount\<close>,
  \<^verbatim>\<open>item_rate\<close>, \<^verbatim>\<open>item_quantity\<close>, \<^verbatim>\<open>sub_total\<close> or \<^verbatim>\<open>actual_bill_total\<close>) that is present and
  that \<^verbatim>\<open>float\<close> rejects, the reconciliation raises and \<^verbatim>\<open>extract_bill_data\<close> returns
  \<^verbatim>\<open>None\<close>: the field is not skipped and no partial result is returned.
\<close>

theorem C3_uncoercible_field_fails_request:
  assumes "has_uncoercible_field (py W) (snd (run_strategies W svc img ocr_text))"
  shows "isl (reconcile_amounts (py W) (snd (run_strategies W svc img ocr_text)))
       \<and> snd (extract_bill_data W svc img ocr_text) = None"
proof -
  from reconcile_fails [OF assms]
  have "isl (reconcile_amounts (py W) (snd (run_strategies W svc img ocr_text)))" .
  with isl_extract_None [OF this] show ?thesis by simp
qed

lemma bad_rate_delivered:
  "snd (run_strategies (answering_world payload_bad_rate) gemini_service ''png'' ''TOTAL 120'')
     = payload_bad_rate"
  by code_simp

lemma bad_rate_uncoercible: "has_uncoercible_field example_builtins payload_bad_rate"
  by code_simp

lemma py_answering_world: "py (answering_world payload) = example_builtins"
  by (simp add: answering_world_def)

theorem C3_uncoercible_field_fails_request_witness:
  "snd (run_strategies (answering_world payload_bad_rate) gemini_service ''png'' ''TOTAL 120'')
     = payload_bad_rate
   \<and> has_uncoercible_field example_builtins payload_bad_rate
   \<and> isl (reconcile_amounts example_builtins payload_bad_rate)
   \<and> snd (extract_bill_data (answering_world payload_bad_rate) gemini_service ''png''
             ''TOTAL 120'') = None"
  using C3_uncoercible_field_fails_request
    [of "answering_world payload_bad_rate" gemini_service "''png''" "''TOTAL 120''"]
    bad_rate_delivered bad_rate_uncoercible
  by (simp add: py_answering_world)

lemma null_amount_fails:
  assumes "map_of kvs ''item_amount'' = Some JNull"
  shows "isl (make_bill_item B (JObj kvs))"
  using assms by (simp add: make_bill_item_def split: option.splits)

lemma missing_amount_is_zero:
  assumes "map_of kvs ''item_amount'' = None"
  shows "make_bill_item B (JObj kvs) = make_bill_item B (JObj ((''item_amount'', JInt 0) # kvs))"
    and "make_bill_item B (JObj kvs) = Inr item \<Longrightarrow> item_amount item = Finite 0"
proof -
  have r: "float_or_none B (JObj ((''item_amount'', JInt 0) # kvs)) ''item_rate''
             = float_or_none B (JObj kvs) ''item_rate''"
    and q: "float_or_none B (JObj ((''item_amount'', JInt 0) # kvs)) ''item_quantity''
             = float_or_none B (JObj kvs) ''item_quantity''"
    by (simp_all add: float_or_none_def)
  show "make_bill_item B (JObj kvs) = make_bill_item B (JObj ((''item_amount'', JInt 0) # kvs))"
    unfolding make_bill_item_def r q using assms by simp
  show "make_bill_item B (JObj kvs) = Inr item \<Longrightarrow> item_amount item = Finite 0"
    using assms item_conv_amount [of B "JObj kvs" item]
    by (simp add: item_conv_def raw_amount_def to_double_zero)
qed

text \<open>
  C10: an item entry whose \<^verbatim>\<open>item_amount\<close> key maps to \<^verbatim>\<open>null\<close> makes the reconciliation
  raise, and \<^verbatim>\<open>extract_bill_data\<close> returns \<^verbatim>\<open>None\<close> for the whole request; an item entry
  without the key is converted exactly as the same entry with \<^verbatim>\<open>item_amount\<close> 0, and its
  amount in the output is 0.0.
\<close>

theorem C10_null_amount_fails_missing_amount_is_zero:
  "(JObj kvs \<in> set (payload_items (snd (run_strategies W svc img ocr_text)))
      \<and> map_of kvs ''item_amount'' = Some JNull
    \<longrightarrow> isl (reconcile_amounts (py W) (snd (run_strategies W svc img ocr_text)))
        \<and> snd (extract_bill_data W svc img ocr_text) = None)
   \<and> (map_of kvs' ''item_amount'' = None
    \<longrightarrow> make_bill_item B (JObj kvs') = make_bill_item B (JObj ((''item_amount'', JInt 0) # kvs'))
        \<and> (\<forall>item. make_bill_item B (JObj kvs') = Inr item \<longrightarrow> item_amount item = Finite 0))"
proof (intro conjI impI allI)
  assume a: "JObj kvs \<in> set (payload_items (snd (run_strategies W svc img ocr_text)))
      \<and> map_of kvs ''item_amount'' = Some JNull"
  then have m: "JObj kvs \<in> set (payload_items (snd (run_strategies W svc img ocr_text)))"
    and n: "map_of kvs ''item_amount'' = Some JNull" by simp_all
  from reconcile_fail_item [OF m null_amount_fails [OF n]]
  show f: "isl (reconcile_amounts (py W) (snd (run_strategies W svc img ocr_text)))" .
  from isl_extract_None [OF f] show "snd (extract_bill_data W svc img ocr_text) = None" .
next
  assume "map_of kvs' ''item_amount'' = None"
  then show "make_bill_item B (JObj kvs') = make_bill_item B (JObj ((''item_amount'', JInt 0) # kvs'))"
    by (rule missing_amount_is_zero(1))
next
  fix item
  assume "map_of kvs' ''item_amount'' = None" and "make_bill_item B (JObj kvs') = Inr item"
  then show "item_amount item = Finite 0" by (rule missing_amount_is_zero(2))
qed

lemma null_amount_delivered:
  "snd (run_strategies (answering_world payload_null_amount) gemini_service ''png'' ''TOTAL 120'')
     = payload_null_amount"
  by code_simp

lemma null_amount_items:
  "payload_items payload_null_amount
     = [JObj [(''item_name'', JStr ''Bandage''), (''item_amount'', JNull)]]"
  by code_simp

lemma no_amount_extracted:
  "snd (extract_bill_data (answering_world payload_no_amount) gemini_service ''png'' ''TOTAL 120'')
     = Some result_no_amount"
  by code_simp

theorem C10_null_amount_fails_missing_amount_is_zero_witness:
  "payload_items
     (snd (run_strategies (answering_world payload_null_amount) gemini_service ''png''
             ''TOTAL 120''))
     = [JObj [(''item_name'', JStr ''Bandage''), (''item_amount'', JNull)]]
   \<and> snd (extract_bill_data (answering_world payload_null_amount) gemini_service ''png''
             ''TOTAL 120'') = None
   \<and> make_bill_item example_builtins (JObj [(''item_name'', JStr ''Bandage'')])
       = make_bill_item example_builtins
           (JObj [(''item_amount'', JInt 0), (''item_name'', JStr ''Bandage'')])
   \<and> snd (extract_bill_data (answering_world payload_no_amount) gemini_service ''png''
             ''TOTAL 120'') = Some result_no_amount
   \<and> map item_amount (all_items result_no_amount) = [Finite 0]"
  using C10_null_amount_fails_missing_amount_is_zero
    [of "[(''item_name'', JStr ''Bandage''), (''item_amount'', JNull)]"
        "answering_world payload_null_amount" gemini_service "''png''" "''TOTAL 120''"
        "[(''item_name'', JStr ''Bandage'')]" example_builtins]
    null_amount_delivered null_amount_items no_amount_extracted
  by (simp add: result_no_amount_def all_items_def)

lemma silent_endpoint:
  "extract_bill_data_endpoint silent_world openai_service scanned ''bill.png''
     = HTTPException 500 ''Failed to extract bill data. Please check your OpenAI API key.''"
  by code_simp

lemma silent_strategies:
  "run_strategies silent_world openai_service ''png'' ''TOTAL 120''
     = ([ChatCompletion ''gpt-4o''
           (''Extract the bill.'' @ ocr_reference @ ''TOTAL 120'') (Some ''png''),
         ChatCompletion ''gpt-4o-mini''
           (''Extract the bill.'' @ bill_text @ ''TOTAL 120'') None],
        JNull)"
  by code_simp

lemma bad_rate_endpoint:
  "extract_bill_data_endpoint (answering_world payload_bad_rate) gemini_service scanned
     ''bill.png''
     = HTTPException 500 ''Failed to extract bill data. Please check your OpenAI API key.''"
  by code_simp

lemma bad_rate_raises: "reconcile_amounts example_builtins payload_bad_rate = Inl ValueError"
  by code_simp

text \<open>
  C4, at two requests whose acquisition succeeds: one where both strategies fail and one
  where the reconciliation raises. The endpoint raises \<^verbatim>\<open>HTTPException\<close> with status 500;
  it does not return a response with \<^verbatim>\<open>is_success=False\<close>.
\<close>

theorem C4_extraction_failure_counterexample:
  "scanned ''bill.png'' = Returns (Some \<lparr>ocr_text_of = ''TOTAL 120'', ocr_image_of = ''png''\<rparr>)
   \<and> snd (run_strategies silent_world openai_service ''png'' ''TOTAL 120'') = JNull
   \<and> extract_bill_data_endpoint silent_world openai_service scanned ''bill.png''
       = HTTPException 500 ''Failed to extract bill data. Please check your OpenAI API key.''
   \<and> snd (run_strategies (answering_world payload_bad_rate) gemini_service ''png''
             ''TOTAL 120'') = payload_bad_rate
   \<and> reconcile_amounts example_builtins payload_bad_rate = Inl ValueError
   \<and> extract_bill_data_endpoint (answering_world payload_bad_rate) gemini_service scanned
         ''bill.png''
       = HTTPException 500 ''Failed to extract bill data. Please check your OpenAI API key.''"
  using silent_endpoint silent_strategies bad_rate_endpoint bad_rate_raises bad_rate_delivered
  by (simp add: scanned_def)

lemma extract_bill_data_None:
  "(snd (extract_bill_data W svc img ocr_text) = None)
     = (\<not> py_truthy (snd (run_strategies W svc img ocr_text))
        \<or> isl (reconcile_amounts (py W) (snd (run_strategies W svc img ocr_text))))"
  by (cases "reconcile_amounts (py W) (snd (run_strategies W svc img ocr_text))")
     (simp_all add: extract_bill_data_snd Let_def)

text \<open>
  C4, as amended: when the acquisition succeeds and both strategies fail or the
  reconciliation raises, the endpoint raises \<^verbatim>\<open>HTTPException\<close> with status 500 and the detail
  text of line 108. A response with \<^verbatim>\<open>is_success=False\<close> and an error text is returned only
  for an exception that is not an \<^verbatim>\<open>HTTPException\<close>.
\<close>

theorem C4_extraction_failure_raises_http_500:
  assumes "process_document document = Returns (Some ocr)"
    and "\<not> py_truthy (snd (run_strategies W svc (ocr_image_of ocr) (ocr_text_of ocr)))
         \<or> isl (reconcile_amounts (py W)
                  (snd (run_strategies W svc (ocr_image_of ocr) (ocr_text_of ocr))))"
  shows "extract_bill_data_endpoint W svc process_document document
           = HTTPException 500 ''Failed to extract bill data. Please check your OpenAI API key.''
       \<and> (\<forall>W' svc' acquire doc r.
             extract_bill_data_endpoint W' svc' acquire doc = Response r \<and> \<not> is_success r
             \<longrightarrow> (\<exists>msg. acquire doc = Raises msg \<and> error r = Some msg))"
proof -
  from assms(2) have
    "snd (extract_bill_data W svc (ocr_image_of ocr) (ocr_text_of ocr)) = None"
    by (simp only: extract_bill_data_None)
  with assms(1) have a: "extract_bill_data_endpoint W svc process_document document
      = HTTPException 500 ''Failed to extract bill data. Please check your OpenAI API key.''"
    by (simp add: extract_bill_data_endpoint_def)
  have b: "\<exists>msg. acquire doc = Raises msg \<and> error r = Some msg"
    if "extract_bill_data_endpoint W' svc' acquire doc = Response r \<and> \<not> is_success r"
    for W' svc' acquire doc r
    using that
    by (auto simp: extract_bill_data_endpoint_def split: outcome.splits option.splits)
  from a b show ?thesis by blast
qed

theorem C4_extraction_failure_raises_http_500_witness:
  "scanned ''bill.png'' = Returns (Some \<lparr>ocr_text_of = ''TOTAL 120'', ocr_image_of = ''png''\<rparr>)
   \<and> \<not> py_truthy (snd (run_strategies silent_world openai_service ''png'' ''TOTAL 120''))
   \<and> extract_bill_data_endpoint silent_world openai_service scanned ''bill.png''
       = HTTPException 500 ''Failed to extract bill data. Please check your OpenAI API key.''"
  using C4_extraction_failure_raises_http_500
    [of scanned "''bill.png''" "\<lparr>ocr_text_of = ''TOTAL 120'', ocr_image_of = ''png''\<rparr>"
        silent_world openai_service]
    silent_strategies
  by (simp add: scanned_def)

lemma fst_ask: "fst (ask W req) = [req]"
  by (simp add: ask_def split: option.splits)

lemma fallback_calls_openai:
  assumes "openai_client svc" and "\<not> gemini_model svc"
  shows "fst (fallback_extraction W svc ocr_text)
           = [ChatCompletion GPT_FALLBACK_MODEL (extraction_prompt W @ bill_text @ ocr_text) None]"
  using assms by (simp add: fallback_extraction_def fst_ask)

lemma vision_calls:
  "map model_of (fst (extract_with_vision W svc img ocr_text)) = [] \<and>
     \<not> py_truthy (snd (extract_with_vision W svc img ocr_text))
   \<or> map model_of (fst (extract_with_vision W svc img ocr_text)) = [GPT_MODEL]"
  by (simp add: extract_with_vision_def fst_ask split: option.splits)

lemma models_differ: "GPT_MODEL \<noteq> GPT_FALLBACK_MODEL"
  by (simp add: GPT_MODEL_def GPT_FALLBACK_MODEL_def)

text \<open>
  C8, for the OpenAI provider and a model that answers nothing: the text-only path sends
  one request, to the cheaper model; the primary model is not attempted there.
\<close>

theorem C8_text_fallback_counterexample:
  "map model_of (fst (fallback_extraction silent_world openai_service ''TOTAL 120''))
     = [''gpt-4o-mini'']
   \<and> GPT_MODEL = ''gpt-4o''
   \<and> GPT_MODEL \<notin> set (map model_of (fst (fallback_extraction silent_world openai_service
                                            ''TOTAL 120'')))"
proof -
  have "map model_of (fst (fallback_extraction silent_world openai_service ''TOTAL 120''))
     = [''gpt-4o-mini'']" by code_simp
  then show ?thesis by (simp add: GPT_MODEL_def)
qed

text \<open>
  C8, as amended: with the OpenAI client alone, the text-only path sends exactly one
  completion request, to the cheaper model \<^verbatim>\<open>GPT_FALLBACK_MODEL\<close>, and none to the primary
  model \<^verbatim>\<open>GPT_MODEL\<close>. The primary model is requested by the vision strategy only, before
  the text-only path.
\<close>

theorem C8_text_fallback_uses_cheaper_model_only:
  assumes "openai_client svc" and "\<not> gemini_model svc"
  shows "map model_of (fst (fallback_extraction W svc ocr_text)) = [GPT_FALLBACK_MODEL]
       \<and> GPT_MODEL \<notin> set (map model_of (fst (fallback_extraction W svc ocr_text)))
       \<and> (provider svc = ''openai''
          \<longrightarrow> map model_of (fst (run_strategies W svc img ocr_text))
                \<in> {[GPT_FALLBACK_MODEL], [GPT_MODEL], [GPT_MODEL, GPT_FALLBACK_MODEL]})"
proof -
  have f: "map model_of (fst (fallback_extraction W svc ocr_text)) = [GPT_FALLBACK_MODEL]"
    by (simp add: fallback_calls_openai [OF assms])
  have r: "map model_of (fst (run_strategies W svc img ocr_text))
             \<in> {[GPT_FALLBACK_MODEL], [GPT_MODEL], [GPT_MODEL, GPT_FALLBACK_MODEL]}"
    if p: "provider svc = ''openai''"
  proof -
    obtain calls extracted where v: "extract_with_vision W svc img ocr_text = (calls, extracted)"
      by (cases "extract_with_vision W svc img ocr_text") auto
    obtain calls' extracted' where
      b: "fallback_extraction W svc ocr_text = (calls', extracted')"
      by (cases "fallback_extraction W svc ocr_text") auto
    from f b have c': "map model_of calls' = [GPT_FALLBACK_MODEL]" by simp
    from vision_calls [of W svc img ocr_text] v
    have c: "map model_of calls = [] \<and> \<not> py_truthy extracted \<or> map model_of calls = [GPT_MODEL]"
      by simp
    have s: "fst (run_strategies W svc img ocr_text)
               = (if \<not> py_truthy extracted then calls @ calls' else calls)"
      using p assms v b by (simp add: run_strategies_def)
    from c c' show ?thesis unfolding s by auto
  qed
  from f r models_differ show ?thesis by simp
qed

theorem C8_text_fallback_uses_cheaper_model_only_witness:
  "openai_client openai_service \<and> \<not> gemini_model openai_service
   \<and> map model_of (fst (fallback_extraction silent_world openai_service ''TOTAL 120''))
       = [GPT_FALLBACK_MODEL]
   \<and> map model_of (fst (run_strategies silent_world openai_service ''png'' ''TOTAL 120''))
       = [GPT_MODEL, GPT_FALLBACK_MODEL]"
  using C8_text_fallback_uses_cheaper_model_only
    [of openai_service silent_world "''TOTAL 120''" "''png''"] silent_strategies
  by (simp add: openai_service_def GPT_MODEL_def GPT_FALLBACK_MODEL_def)

end
